theory Spec2Isabelle
  imports Main "HOL-Library.Sublist"
begin

section \<open>The chat-session store (the React hook \<open>useChatGPT\<close>)\<close>

text \<open>
  The hook keeps four pieces of React state (\<open>sessions\<close>, \<open>currentSession\<close>,
  \<open>isLoading\<close>, \<open>error\<close>) and one ref (\<open>abortControllerRef\<close>). Every callback
  is a closure over the values of \<open>sessions\<close> and \<open>currentSession\<close> of the render
  that created it; the state setters either take a value or a function of the latest
  state. The model keeps the two apart: a \<open>closure\<close> holds what the callback reads
  from its render, the \<open>store\<close> is the latest state that the setters update.
  Identifiers (\<open>generateId()\<close>), clock readings (\<open>new Date()\<close>) and everything the
  network or the storage engine answers are inputs of the model.
\<close>

subsection \<open>Data model\<close>

text \<open>A JavaScript \<open>Date\<close>: a time value in milliseconds, or the invalid date.\<close>

datatype Date = Date int | InvalidDate

datatype Role = User | Assistant | System

record ChatMessage =
  msg_id :: string
  role :: Role
  content :: string
  timestamp :: Date
  tokens :: "int option"

record ChatSession =
  session_id :: string
  title :: string
  messages :: "ChatMessage list"
  createdAt :: Date
  updatedAt :: Date

text \<open>
  Abort controllers are objects with identity: they are numbered in the order of their
  creation (\<open>allocated\<close> counts them) and \<open>aborted\<close> holds those on which
  \<open>abort()\<close> has been called.
\<close>

record store =
  sessions :: "ChatSession list"
  currentSession :: "ChatSession option"
  isLoading :: bool
  error :: "string option"
  abortControllerRef :: "nat option"
  aborted :: "nat set"
  allocated :: nat

record closure =
  c_sessions :: "ChatSession list"
  c_currentSession :: "ChatSession option"

text \<open>The closure of the callbacks created by the render of state \<open>st\<close>.\<close>

definition render :: "store \<Rightarrow> closure" where
  "render st = \<lparr>c_sessions = sessions st, c_currentSession = currentSession st\<rparr>"

definition initial_store :: store where
  "initial_store = \<lparr>sessions = [], currentSession = None, isLoading = False,
     error = None, abortControllerRef = None, aborted = {}, allocated = 0\<rparr>"

text \<open>A JavaScript error object, as far as the hook looks at it.\<close>

record js_error =
  err_name :: string
  err_message :: string

subsection \<open>Inputs drawn from the environment\<close>

text \<open>
  What \<open>createNewSession\<close> draws: \<open>generateId()\<close>, the text of
  \<open>new Date().toLocaleDateString()\<close>, and the two clock readings for \<open>createdAt\<close>
  and \<open>updatedAt\<close>.
\<close>

record session_seed =
  seed_session_id :: string
  seed_locale_date :: string
  seed_createdAt :: int
  seed_updatedAt :: int

text \<open>
  What building one message draws: \<open>generateId()\<close>, the clock reading of its
  \<open>timestamp\<close>, and the clock reading of the session's new \<open>updatedAt\<close>.
\<close>

record message_seed =
  seed_msg_id :: string
  seed_timestamp :: int
  seed_touched :: int

subsection \<open>Session operations\<close>

text \<open>\<open>sessionId ? a : b\<close> and \<open>title || d\<close>: an absent or empty string is falsy.\<close>

fun truthy :: "string option \<Rightarrow> bool" where
  "truthy None = False"
| "truthy (Some s) = (s \<noteq> [])"

text \<open>The object literal of \<open>createNewSession\<close>.\<close>

definition new_session :: "session_seed \<Rightarrow> string option \<Rightarrow> ChatSession" where
  "new_session seed title_opt =
     \<lparr>session_id = seed_session_id seed,
      title = (if truthy title_opt then the title_opt else ''Chat '' @ seed_locale_date seed),
      messages = [],
      createdAt = Date (seed_createdAt seed),
      updatedAt = Date (seed_updatedAt seed)\<rparr>"

definition createNewSession :: "session_seed \<Rightarrow> string option \<Rightarrow> store \<Rightarrow> ChatSession \<times> store" where
  "createNewSession seed title_opt st =
     (let session = new_session seed title_opt
      in (session, st\<lparr>sessions := session # sessions st, currentSession := Some session\<rparr>))"

text \<open>\<open>prev.map(s => s.id === u.id ? u : s)\<close>\<close>

definition replace_session :: "ChatSession \<Rightarrow> ChatSession list \<Rightarrow> ChatSession list" where
  "replace_session u ss = map (\<lambda>s. if session_id s = session_id u then u else s) ss"

text \<open>\<open>currentSession?.id === x\<close> on the closure's \<open>currentSession\<close>.\<close>

definition current_is :: "ChatSession option \<Rightarrow> string \<Rightarrow> bool" where
  "current_is cur x = (case cur of None \<Rightarrow> False | Some c \<Rightarrow> session_id c = x)"

definition selectSession :: "closure \<Rightarrow> string \<Rightarrow> store \<Rightarrow> store" where
  "selectSession cl sessionId st =
     (case find (\<lambda>s. session_id s = sessionId) (c_sessions cl) of
        Some session \<Rightarrow> st\<lparr>currentSession := Some session, error := None\<rparr>
      | None \<Rightarrow> st)"

text \<open>\<open>prev[0] || null\<close>\<close>

definition first_or_null :: "'a list \<Rightarrow> 'a option" where
  "first_or_null xs = (case xs of [] \<Rightarrow> None | x # _ \<Rightarrow> Some x)"

definition deleteSession :: "closure \<Rightarrow> string \<Rightarrow> store \<Rightarrow> store" where
  "deleteSession cl sessionId st =
     (let st1 = st\<lparr>sessions := filter (\<lambda>s. session_id s \<noteq> sessionId) (sessions st)\<rparr>
      in if current_is (c_currentSession cl) sessionId
         then st1\<lparr>currentSession := first_or_null (sessions st1)\<rparr>
         else st1)"

text \<open>The clock reading is the \<open>new Date()\<close> of the cleared session's \<open>updatedAt\<close>.\<close>

definition clearSession :: "closure \<Rightarrow> int \<Rightarrow> string \<Rightarrow> store \<Rightarrow> store" where
  "clearSession cl now sessionId st =
     (let st1 = st\<lparr>sessions := map (\<lambda>session. if session_id session = sessionId
                                     then session\<lparr>messages := [], updatedAt := Date now\<rparr>
                                     else session) (sessions st)\<rparr>;
          st2 = (if current_is (c_currentSession cl) sessionId
                 then st1\<lparr>currentSession :=
                        (case currentSession st1 of None \<Rightarrow> None
                         | Some prev \<Rightarrow> Some (prev\<lparr>messages := []\<rparr>))\<rparr>
                 else st1)
      in st2\<lparr>error := None\<rparr>)"

subsection \<open>The remote call\<close>

text \<open>\<open>String.prototype.includes\<close>\<close>

definition includes_str :: "string \<Rightarrow> string \<Rightarrow> bool" where
  "includes_str s part = sublist part s"

text \<open>
  The error strings hold three letters outside ASCII (a-acute, i-acute, o-acute); each
  is one UTF-16 code unit below 256 and is written as that character code.
\<close>

definition api_key_text :: string where
  "api_key_text = ''API key inv'' @ [char_of (225::nat)] @ ''lida o no configurada''"

definition rate_limit_text :: string where
  "rate_limit_text = ''L'' @ [char_of (237::nat)]
     @ ''mite de rate excedido. Intenta nuevamente en unos momentos''"

definition quota_text :: string where
  "quota_text = ''Cuota de API agotada. Verifica tu billing en OpenAI''"

definition connectivity_text :: string where
  "connectivity_text = ''Error de conexi'' @ [char_of (243::nat)]
     @ ''n. Verifica tu conexi'' @ [char_of (243::nat)] @ ''n a internet''"

definition unknown_error_text :: string where
  "unknown_error_text = ''Error desconocido al comunicarse con la API''"

definition handleApiError :: "js_error \<Rightarrow> string" where
  "handleApiError e =
     (if includes_str (err_message e) ''API key'' then api_key_text
      else if includes_str (err_message e) ''429'' then rate_limit_text
      else if includes_str (err_message e) ''insufficient_quota'' then quota_text
      else if err_name e = ''TypeError'' \<and> includes_str (err_message e) ''fetch''
        then connectivity_text
      else if err_message e \<noteq> [] then err_message e
      else unknown_error_text)"

text \<open>Decimal text of a number, as a template literal renders \<open>response.status\<close>.\<close>

fun decimal :: "nat \<Rightarrow> string" where
  "decimal n = (if n < 10 then [char_of (48 + n)]
                else decimal (n div 10) @ [char_of (48 + n mod 10)])"

declare decimal.simps [simp del]

text \<open>
  The body of a 2xx answer, typed as \<open>OpenAIResponse\<close> with the parts the hook reads
  defensively (\<open>choices[0]?.message?.content\<close>, \<open>usage?.total_tokens\<close>) optional.
  \<open>choices\<close> itself is read without a guard, so its absence is kept apart:
  \<open>choices = None\<close> stands for a body from which \<open>data.choices[0]\<close> cannot be read
  (no \<open>choices\<close> property, or a body that is \<open>null\<close>), which raises a
  \<open>TypeError\<close>.
\<close>

datatype choice_message = ChoiceMessage (message_content: "string option")

datatype choice = Choice (choice_message: "choice_message option")

datatype usage = Usage (total_tokens: "int option")

record OpenAIResponse =
  choices :: "choice list option"
  usage :: "usage option"

text \<open>
  What the hook reads from the body of a non-2xx answer, where
  \<open>errorData = await response.json().catch(() => ({}))\<close>:
  \<^item> \<open>Unreadable\<close>: \<open>response.json()\<close> rejects (the body is not JSON, or the request
    is aborted while the body is read) and the \<open>catch\<close> gives \<open>{}\<close>;
  \<^item> \<open>NullBody\<close>: the body is the JSON value \<open>null\<close>, so reading
    \<open>errorData.error\<close> raises a \<open>TypeError\<close>;
  \<^item> \<open>Body m\<close>: any other JSON value; \<open>m\<close> is \<open>None\<close> when
    \<open>errorData.error?.message\<close> is \<open>undefined\<close>, \<open>null\<close>, \<open>false\<close> or
    \<open>0\<close>, and otherwise the text that \<open>new Error(...)\<close> makes of it (the string
    itself, when it is a string).
\<close>

datatype error_body = Unreadable | NullBody | Body "string option"

text \<open>
  What the awaits of the \<open>try\<close> block can produce:
  \<^item> \<open>Rejected e\<close>: \<open>fetch\<close> rejects (\<open>AbortError\<close> after an abort, a \<open>TypeError\<close>
    when the network fails);
  \<^item> \<open>NotOk status statusText body\<close>: a non-2xx answer with its body;
  \<^item> \<open>OkBody r\<close>: a 2xx answer whose \<open>response.json()\<close> rejects with an error or
    gives the body.
\<close>

datatype fetch_outcome =
    Rejected js_error
  | NotOk nat string error_body
  | OkBody "js_error + OpenAIResponse"

text \<open>\<open>data.choices[0]?.message?.content\<close>, once \<open>data.choices\<close> is an array.\<close>

definition first_content :: "choice list \<Rightarrow> string option" where
  "first_content cs =
     (case cs of [] \<Rightarrow> None
      | c # _ \<Rightarrow> (case choice_message c of None \<Rightarrow> None
                  | Some m \<Rightarrow> message_content m))"

definition usage_total :: "usage option \<Rightarrow> int option" where
  "usage_total u = (case u of None \<Rightarrow> None | Some v \<Rightarrow> total_tokens v)"

text \<open>The template literal \<open>`HTTP ${response.status}: ${response.statusText}`\<close>.\<close>

definition http_text :: "nat \<Rightarrow> string \<Rightarrow> string" where
  "http_text status statusText = ''HTTP '' @ decimal status @ '': '' @ statusText"

text \<open>
  The \<open>try\<close> block after the request was issued: either the error that reaches the
  \<open>catch\<close>, or the content and token count of the assistant message. The text of a
  \<open>TypeError\<close> raised by reading a property of \<open>null\<close> or \<open>undefined\<close>
  (\<open>errorData.error\<close> of a \<open>null\<close> body, \<open>[0]\<close> of a missing \<open>choices\<close>) is
  the engine's.
\<close>

definition try_block :: "string \<Rightarrow> fetch_outcome \<Rightarrow> js_error + (string \<times> int option)" where
  "try_block engine_text outcome =
     (case outcome of
        Rejected e \<Rightarrow> Inl e
      | NotOk status statusText body \<Rightarrow>
          (case body of
             NullBody \<Rightarrow> Inl \<lparr>err_name = ''TypeError'', err_message = engine_text\<rparr>
           | Unreadable \<Rightarrow>
               Inl \<lparr>err_name = ''Error'', err_message = http_text status statusText\<rparr>
           | Body m \<Rightarrow>
               Inl \<lparr>err_name = ''Error'',
                    err_message = (if truthy m then the m else http_text status statusText)\<rparr>)
      | OkBody (Inl e) \<Rightarrow> Inl e
      | OkBody (Inr data) \<Rightarrow>
          (case choices data of
             None \<Rightarrow> Inl \<lparr>err_name = ''TypeError'', err_message = engine_text\<rparr>
           | Some cs \<Rightarrow>
               Inr (if truthy (first_content cs) then the (first_content cs)
                    else ''No response'',
                    usage_total (usage data))))"

text \<open>
  A call of \<open>sendMessage\<close> that is waiting for its answer: what its continuation
  still holds (the closure's \<open>currentSession\<close>, \<open>updatedSession\<close>) and the request
  it issued (the \<open>messages\<close> of the body and the signal, named by its controller).
\<close>

record pending_call =
  call_currentSession :: "ChatSession option"
  call_updatedSession :: ChatSession
  call_apiMessages :: "(Role \<times> string) list"
  call_signal :: nat

text \<open>The session \<open>sendMessage\<close> resolves as its target, before creating one.\<close>

definition find_target :: "closure \<Rightarrow> string option \<Rightarrow> ChatSession option" where
  "find_target cl sessionId =
     (if truthy sessionId
      then find (\<lambda>s. session_id s = the sessionId) (c_sessions cl)
      else c_currentSession cl)"

text \<open>The object literal \<open>userMessage\<close>; it has no \<open>tokens\<close> property.\<close>

definition user_message :: "message_seed \<Rightarrow> string \<Rightarrow> ChatMessage" where
  "user_message mseed text =
     \<lparr>msg_id = seed_msg_id mseed, role = User, content = text,
      timestamp = Date (seed_timestamp mseed), tokens = None\<rparr>"

text \<open>\<open>sendMessage\<close> up to and including the call of \<open>fetch\<close>.\<close>

definition sendMessage_start ::
  "closure \<Rightarrow> session_seed \<Rightarrow> message_seed \<Rightarrow> string \<Rightarrow> string option \<Rightarrow> store
     \<Rightarrow> pending_call \<times> store" where
  "sendMessage_start cl sseed mseed text sessionId st =
     (let st1 = (case abortControllerRef st of
                   Some c \<Rightarrow> st\<lparr>aborted := insert c (aborted st)\<rparr>
                 | None \<Rightarrow> st);
          (targetSession, st2) =
             (case find_target cl sessionId of
                Some t \<Rightarrow> (t, st1)
              | None \<Rightarrow> createNewSession sseed None st1);
          userMessage = user_message mseed text;
          updatedSession = targetSession\<lparr>messages := messages targetSession @ [userMessage],
                                         updatedAt := Date (seed_touched mseed)\<rparr>;
          st3 = st2\<lparr>sessions := replace_session updatedSession (sessions st2)\<rparr>;
          st4 = (if current_is (c_currentSession cl) (session_id updatedSession)
                 then st3\<lparr>currentSession := Some updatedSession\<rparr> else st3);
          st5 = st4\<lparr>isLoading := True, error := None\<rparr>;
          controller = allocated st5;
          st6 = st5\<lparr>abortControllerRef := Some controller, allocated := Suc controller\<rparr>
      in (\<lparr>call_currentSession = c_currentSession cl,
           call_updatedSession = updatedSession,
           call_apiMessages = map (\<lambda>msg. (role msg, content msg)) (messages updatedSession),
           call_signal = controller\<rparr>, st6))"

text \<open>
  \<open>sendMessage\<close> from the moment its awaits settle: the rest of the \<open>try\<close> block or
  the \<open>catch\<close>. The result is the message the promise resolves to, or \<open>None\<close> for
  \<open>null\<close>.
\<close>

definition sendMessage_resume ::
  "pending_call \<Rightarrow> message_seed \<Rightarrow> string \<Rightarrow> fetch_outcome \<Rightarrow> store
     \<Rightarrow> ChatMessage option \<times> store" where
  "sendMessage_resume call mseed engine_text outcome st =
     (let updatedSession = call_updatedSession call in
      case try_block engine_text outcome of
        Inr (reply, used) \<Rightarrow>
          (let assistantMessage = \<lparr>msg_id = seed_msg_id mseed, role = Assistant,
                                    content = reply,
                                    timestamp = Date (seed_timestamp mseed), tokens = used\<rparr>;
               finalSession = updatedSession\<lparr>
                                messages := messages updatedSession @ [assistantMessage],
                                updatedAt := Date (seed_touched mseed)\<rparr>;
               st1 = st\<lparr>sessions := replace_session finalSession (sessions st)\<rparr>;
               st2 = (if current_is (call_currentSession call) (session_id finalSession)
                      then st1\<lparr>currentSession := Some finalSession\<rparr> else st1)
           in (Some assistantMessage, st2\<lparr>isLoading := False\<rparr>))
      | Inl err \<Rightarrow>
          (let st1 = st\<lparr>isLoading := False\<rparr> in
           if err_name err = ''AbortError'' then (None, st1)
           else
             (let errorMessage = handleApiError err;
                  st2 = st1\<lparr>error := Some errorMessage\<rparr>;
                  errorResponseMessage = \<lparr>msg_id = seed_msg_id mseed, role = Assistant,
                                           content = ''Error: '' @ errorMessage,
                                           timestamp = Date (seed_timestamp mseed),
                                           tokens = None\<rparr>;
                  errorSession = updatedSession\<lparr>
                                   messages := messages updatedSession @ [errorResponseMessage],
                                   updatedAt := Date (seed_touched mseed)\<rparr>;
                  st3 = st2\<lparr>sessions := replace_session errorSession (sessions st2)\<rparr>;
                  st4 = (if current_is (call_currentSession call) (session_id errorSession)
                         then st3\<lparr>currentSession := Some errorSession\<rparr> else st3)
              in (Some errorResponseMessage, st4))))"

text \<open>
  How far a request had got when its signal was aborted: \<open>fetch\<close> was still pending,
  or it had resolved with the response and the body was being read.
\<close>

datatype progress = Waiting | HeadersIn

text \<open>
  The contract of \<open>fetch\<close> with an abort signal. A request whose signal has not been
  aborted gets what the network answers. After an abort, a pending \<open>fetch\<close> rejects
  with an \<open>AbortError\<close>, and so does the pending \<open>response.json()\<close> of an answer
  whose headers were in. In the 2xx branch that rejection reaches the \<open>catch\<close> of
  \<open>sendMessage\<close>; in the non-2xx branch it is swallowed by
  \<open>.catch(() => ({}))\<close>, so the call goes on with the status line and no body.
\<close>

definition settle :: "store \<Rightarrow> pending_call \<Rightarrow> progress \<Rightarrow> fetch_outcome \<Rightarrow> fetch_outcome" where
  "settle st call reached network =
     (if call_signal call \<in> aborted st
      then (case (reached, network) of
              (HeadersIn, NotOk status statusText body) \<Rightarrow> NotOk status statusText Unreadable
            | _ \<Rightarrow> Rejected \<lparr>err_name = ''AbortError'',
                              err_message = ''The user aborted a request.''\<rparr>)
      else network)"

text \<open>
  One whole call issued from the current render with nothing in between: the request is
  issued and its answer handled by the continuation.
\<close>

definition sendMessage ::
  "session_seed \<Rightarrow> message_seed \<Rightarrow> message_seed \<Rightarrow> string \<Rightarrow> fetch_outcome
     \<Rightarrow> string \<Rightarrow> string option \<Rightarrow> store \<Rightarrow> ChatMessage option \<times> store" where
  "sendMessage sseed mseed rseed engine_text network text sessionId st =
     (let (call, st1) = sendMessage_start (render st) sseed mseed text sessionId st
      in sendMessage_resume call rseed engine_text (settle st1 call Waiting network) st1)"

subsection \<open>Token accounting\<close>

text \<open>\<open>message.tokens || 0\<close>\<close>

definition tokens_or_zero :: "ChatMessage \<Rightarrow> int" where
  "tokens_or_zero message = (case tokens message of None \<Rightarrow> 0 | Some n \<Rightarrow> n)"

definition getTotalTokensUsed :: "closure \<Rightarrow> string option \<Rightarrow> int" where
  "getTotalTokensUsed cl sessionId =
     (let targetSessions = (if truthy sessionId
                            then filter (\<lambda>s. session_id s = the sessionId) (c_sessions cl)
                            else c_sessions cl)
      in foldl (\<lambda>total session.
                  total + foldl (\<lambda>sessionTotal message. sessionTotal + tokens_or_zero message)
                            0 (messages session))
           0 targetSessions)"

subsection \<open>JSON and the storage slot\<close>

text \<open>
  JSON values, as \<open>JSON.parse\<close> gives them. Where the hook reads a string with
  \<open>new Date\<close>, the string is \<open>JIso t\<close> when \<open>new Date\<close> reads the time value
  \<open>t\<close> from it (the text that \<open>Date.prototype.toJSON\<close> writes for a valid date is
  read back as that date) and \<open>JStr s\<close> when it reads no date from it; everywhere else
  a string is \<open>JStr s\<close>. Numbers are integers: the hook stores token counts only.
\<close>

datatype json =
    JNull
  | JBool bool
  | JNum int
  | JStr string
  | JIso int
  | JArr "json list"
  | JObj "(string \<times> json) list"

text \<open>
  A text up to what \<open>JSON.parse\<close> makes of it: the empty string, a non-empty text
  that \<open>JSON.parse\<close> rejects, or the text of a JSON value (\<open>JSON.stringify\<close> of a
  value is the text of that value, whatever its indentation).
\<close>

datatype json_text = EmptyText | Garbage | JsonText json

text \<open>
  Reading untyped data gives a value of the TypeScript type, raises a \<open>TypeError\<close>,
  or goes on with a value that is not of the declared type, where the model stops.
\<close>

datatype 'a reading = Read 'a | Raises | OutOfType

definition JSON_parse :: "json_text \<Rightarrow> json reading" where
  "JSON_parse t = (case t of JsonText j \<Rightarrow> Read j | _ \<Rightarrow> Raises)"

text \<open>\<open>Date.prototype.toJSON\<close>: the ISO text, or \<open>null\<close> for the invalid date.\<close>

definition date_json :: "Date \<Rightarrow> json" where
  "date_json d = (case d of Date t \<Rightarrow> JIso t | InvalidDate \<Rightarrow> JNull)"

definition role_text :: "Role \<Rightarrow> string" where
  "role_text r = (case r of User \<Rightarrow> ''user'' | Assistant \<Rightarrow> ''assistant'' | System \<Rightarrow> ''system'')"

definition role_of_text :: "string \<Rightarrow> Role option" where
  "role_of_text s =
     (if s = ''user'' then Some User
      else if s = ''assistant'' then Some Assistant
      else if s = ''system'' then Some System
      else None)"

text \<open>The value \<open>JSON.stringify\<close> writes: a property that is \<open>undefined\<close> is left out.\<close>

definition message_json :: "ChatMessage \<Rightarrow> json" where
  "message_json m =
     JObj ([(''id'', JStr (msg_id m)),
            (''role'', JStr (role_text (role m))),
            (''content'', JStr (content m)),
            (''timestamp'', date_json (timestamp m))]
           @ (case tokens m of None \<Rightarrow> [] | Some n \<Rightarrow> [(''tokens'', JNum n)]))"

definition session_json :: "ChatSession \<Rightarrow> json" where
  "session_json s =
     JObj [(''id'', JStr (session_id s)),
           (''title'', JStr (title s)),
           (''messages'', JArr (map message_json (messages s))),
           (''createdAt'', date_json (createdAt s)),
           (''updatedAt'', date_json (updatedAt s))]"

definition sessions_json :: "ChatSession list \<Rightarrow> json" where
  "sessions_json ss = JArr (map session_json ss)"

text \<open>
  \<open>new Date(v)\<close> for a property value \<open>v\<close>, \<open>None\<close> being \<open>undefined\<close>. An array
  or an object is first turned into a text the model does not follow.
\<close>

definition new_Date :: "json option \<Rightarrow> Date reading" where
  "new_Date v =
     (case v of
        None \<Rightarrow> Read InvalidDate
      | Some JNull \<Rightarrow> Read (Date 0)
      | Some (JBool b) \<Rightarrow> Read (Date (if b then 1 else 0))
      | Some (JNum n) \<Rightarrow>
          Read (if \<bar>n\<bar> \<le> 8640000000000000 then Date n else InvalidDate)
      | Some (JIso t) \<Rightarrow> Read (Date t)
      | Some (JStr s) \<Rightarrow> Read InvalidDate
      | Some (JArr xs) \<Rightarrow> OutOfType
      | Some (JObj kv) \<Rightarrow> OutOfType)"

text \<open>A property that the interface types as a string.\<close>

definition string_field :: "(string \<times> json) list \<Rightarrow> string \<Rightarrow> string reading" where
  "string_field kv k = (case map_of kv k of Some (JStr s) \<Rightarrow> Read s | _ \<Rightarrow> OutOfType)"

text \<open>\<open>tokens?: number\<close>\<close>

definition tokens_field :: "(string \<times> json) list \<Rightarrow> int option reading" where
  "tokens_field kv =
     (case map_of kv ''tokens'' of
        None \<Rightarrow> Read None
      | Some (JNum n) \<Rightarrow> Read (Some n)
      | _ \<Rightarrow> OutOfType)"

text \<open>
  \<open>msg => ({...msg, timestamp: new Date(msg.timestamp)})\<close>: reading \<open>.timestamp\<close>
  of \<open>null\<close> raises; nothing else does. The result is a \<open>ChatMessage\<close> when the
  other properties have their declared types.
\<close>

definition revive_message :: "json \<Rightarrow> ChatMessage reading" where
  "revive_message msg =
     (case msg of
        JNull \<Rightarrow> Raises
      | JObj kv \<Rightarrow>
          (case (string_field kv ''id'', string_field kv ''role'', string_field kv ''content'',
                 new_Date (map_of kv ''timestamp''), tokens_field kv) of
             (Read i, Read r, Read c, Read d, Read t) \<Rightarrow>
               (case role_of_text r of
                  Some ro \<Rightarrow> Read \<lparr>msg_id = i, role = ro, content = c, timestamp = d, tokens = t\<rparr>
                | None \<Rightarrow> OutOfType)
           | _ \<Rightarrow> OutOfType)
      | _ \<Rightarrow> OutOfType)"

text \<open>\<open>Array.prototype.map\<close> with a callback that may raise: the first raise ends it.\<close>

fun read_all :: "('a \<Rightarrow> 'b reading) \<Rightarrow> 'a list \<Rightarrow> 'b list reading" where
  "read_all f [] = Read []"
| "read_all f (x # xs) =
     (case f x of
        Raises \<Rightarrow> Raises
      | OutOfType \<Rightarrow> (case read_all f xs of Raises \<Rightarrow> Raises | _ \<Rightarrow> OutOfType)
      | Read y \<Rightarrow> (case read_all f xs of Read ys \<Rightarrow> Read (y # ys)
                   | Raises \<Rightarrow> Raises | OutOfType \<Rightarrow> OutOfType))"

text \<open>\<open>v.map(f)\<close> on a value that need not be an array: anything else has no \<open>map\<close>.\<close>

definition map_json :: "(json \<Rightarrow> 'b reading) \<Rightarrow> json option \<Rightarrow> 'b list reading" where
  "map_json f v = (case v of Some (JArr xs) \<Rightarrow> read_all f xs | _ \<Rightarrow> Raises)"

text \<open>
  The callback of \<open>JSON.parse(stored).map(...)\<close>: the two dates are read first (which
  raises on \<open>null\<close>), then \<open>session.messages.map\<close>.
\<close>

definition revive_session :: "json \<Rightarrow> ChatSession reading" where
  "revive_session session =
     (case session of
        JNull \<Rightarrow> Raises
      | JObj kv \<Rightarrow>
          (case map_json revive_message (map_of kv ''messages'') of
             Raises \<Rightarrow> Raises
           | OutOfType \<Rightarrow> OutOfType
           | Read ms \<Rightarrow>
               (case (string_field kv ''id'', string_field kv ''title'',
                      new_Date (map_of kv ''createdAt''), new_Date (map_of kv ''updatedAt'')) of
                  (Read i, Read t, Read c, Read u) \<Rightarrow>
                    Read \<lparr>session_id = i, title = t, messages = ms, createdAt = c, updatedAt = u\<rparr>
                | _ \<Rightarrow> OutOfType))
      | _ \<Rightarrow> Raises)"

text \<open>
  \<open>loadSessionsFromStorage\<close>; the argument is what \<open>localStorage.getItem\<close> returns,
  \<open>None\<close> for \<open>null\<close>. The \<open>catch\<close> turns every raise into the empty session set.
\<close>

definition loadSessionsFromStorage :: "json_text option \<Rightarrow> store \<Rightarrow> store reading" where
  "loadSessionsFromStorage stored st =
     (if stored = None \<or> stored = Some EmptyText then Read st
      else
        (case (case JSON_parse (the stored) of
                 Read j \<Rightarrow> map_json revive_session (Some j)
               | Raises \<Rightarrow> Raises
               | OutOfType \<Rightarrow> OutOfType) of
           Read parsedSessions \<Rightarrow>
             (let st1 = st\<lparr>sessions := parsedSessions\<rparr>
              in Read (case parsedSessions of [] \<Rightarrow> st1
                       | first # _ \<Rightarrow> st1\<lparr>currentSession := Some first\<rparr>))
         | Raises \<Rightarrow> Read (st\<lparr>sessions := []\<rparr>)
         | OutOfType \<Rightarrow> OutOfType))"

text \<open>
  \<open>localStorage.setItem\<close>: the engine either takes the value or throws; what it does
  with a given value is the engine's (\<open>None\<close>: stored).
\<close>

definition setItem ::
  "(json \<Rightarrow> js_error option) \<Rightarrow> json \<Rightarrow> json_text option \<Rightarrow> js_error + json_text option" where
  "setItem engine v slot = (case engine v of None \<Rightarrow> Inr (Some (JsonText v)) | Some e \<Rightarrow> Inl e)"

text \<open>
  What one run of \<open>saveSessionsToStorage\<close> leaves: the store, the slot, the values it
  passed to \<open>setItem\<close> in order, and the lines it logged with \<open>console.error\<close>.
\<close>

record save_result =
  saved_store :: store
  saved_slot :: "json_text option"
  attempts :: "json list"
  logged :: "string list"

definition saveSessionsToStorage ::
  "closure \<Rightarrow> (json \<Rightarrow> js_error option) \<Rightarrow> json_text option \<Rightarrow> store \<Rightarrow> save_result" where
  "saveSessionsToStorage cl engine slot st =
     (let v = sessions_json (c_sessions cl) in
      case setItem engine v slot of
        Inr slot1 \<Rightarrow> \<lparr>saved_store = st, saved_slot = slot1, attempts = [v], logged = []\<rparr>
      | Inl e \<Rightarrow>
          (let log1 = [''Error saving sessions to storage:''] in
           if err_name e = ''QuotaExceededError''
           then
             (let recentSessions = take 10 (c_sessions cl);
                  st1 = st\<lparr>sessions := recentSessions\<rparr>;
                  v1 = sessions_json recentSessions
              in case setItem engine v1 slot of
                   Inr slot1 \<Rightarrow>
                     \<lparr>saved_store = st1, saved_slot = slot1, attempts = [v, v1], logged = log1\<rparr>
                 | Inl retryError \<Rightarrow>
                     \<lparr>saved_store = st1, saved_slot = slot, attempts = [v, v1],
                      logged = log1 @ [''Failed to save even reduced sessions:'']\<rparr>)
           else \<lparr>saved_store = st, saved_slot = slot, attempts = [v], logged = log1\<rparr>))"

text \<open>
  \<open>exportSession\<close> in its default format \<open>'json'\<close>: the text of the session, or the
  empty string when no session has the id.
\<close>

definition exportSession :: "closure \<Rightarrow> string \<Rightarrow> json_text" where
  "exportSession cl sessionId =
     (case find (\<lambda>s. session_id s = sessionId) (c_sessions cl) of
        None \<Rightarrow> EmptyText
      | Some session \<Rightarrow> JsonText (session_json session))"

subsection \<open>Predicates on store states\<close>

definition session_ids :: "store \<Rightarrow> string set" where
  "session_ids st = session_id ` set (sessions st)"

text \<open>The active-session reference, when set, names a session of the set.\<close>

definition active_in_set :: "store \<Rightarrow> bool" where
  "active_in_set st =
     (case currentSession st of None \<Rightarrow> True | Some c \<Rightarrow> session_id c \<in> session_ids st)"

text \<open>
  Every controller created so far has been aborted, except the one the ref holds:
  at most one request can still be answered.
\<close>

definition single_flight :: "store \<Rightarrow> bool" where
  "single_flight st =
     ((\<forall>c \<in> aborted st. c < allocated st)
      \<and> (case abortControllerRef st of None \<Rightarrow> True | Some r \<Rightarrow> r < allocated st)
      \<and> (\<forall>c \<in> {..<allocated st}. c \<notin> aborted st \<longrightarrow> abortControllerRef st = Some c))"


text \<open>No date of the session is the invalid date.\<close>

definition valid_dates :: "ChatSession \<Rightarrow> bool" where
  "valid_dates s =
     (createdAt s \<noteq> InvalidDate \<and> updatedAt s \<noteq> InvalidDate
      \<and> list_all (\<lambda>m. timestamp m \<noteq> InvalidDate) (messages s))"



text \<open>
  The session a call of \<open>sendMessage\<close> works on: the one it resolves, or the new one
  it creates when it resolves none.
\<close>

definition resolved_target :: "closure \<Rightarrow> session_seed \<Rightarrow> string option \<Rightarrow> ChatSession" where
  "resolved_target cl sseed sid =
     (case find_target cl sid of Some t \<Rightarrow> t | None \<Rightarrow> new_session sseed None)"

subsection \<open>Example inputs\<close>

text \<open>Concrete identifiers, clock readings and answers, used to run the model.\<close>

definition seed_s1 :: session_seed where
  "seed_s1 = \<lparr>seed_session_id = ''s1'', seed_locale_date = ''1/2/2026'',
              seed_createdAt = 1000, seed_updatedAt = 1000\<rparr>"

definition seed_u1 :: message_seed where
  "seed_u1 = \<lparr>seed_msg_id = ''m1'', seed_timestamp = 2000, seed_touched = 2001\<rparr>"

definition seed_a1 :: message_seed where
  "seed_a1 = \<lparr>seed_msg_id = ''m2'', seed_timestamp = 3000, seed_touched = 3001\<rparr>"

definition seed_u2 :: message_seed where
  "seed_u2 = \<lparr>seed_msg_id = ''m3'', seed_timestamp = 4000, seed_touched = 4001\<rparr>"

definition seed_a2 :: message_seed where
  "seed_a2 = \<lparr>seed_msg_id = ''m4'', seed_timestamp = 5000, seed_touched = 5001\<rparr>"

text \<open>A 2xx answer with one choice and a token count.\<close>

definition completion :: "string \<Rightarrow> int \<Rightarrow> fetch_outcome" where
  "completion reply n =
     OkBody (Inr \<lparr>choices = Some [Choice (Some (ChoiceMessage (Some reply)))],
                  usage = Some (Usage (Some n))\<rparr>)"

text \<open>The store after \<open>createNewSession()\<close> on the initial store.\<close>

definition one_session_store :: store where
  "one_session_store = snd (createNewSession seed_s1 None initial_store)"

text \<open>A call of \<open>sendMessage('hi')\<close> on that store, waiting for its answer.\<close>

definition pending_hi :: "pending_call \<times> store" where
  "pending_hi = sendMessage_start (render one_session_store) seed_s1 seed_u1 ''hi'' None
     one_session_store"

text \<open>A storage engine that is full: every write fails.\<close>

definition quota_error :: js_error where
  "quota_error = \<lparr>err_name = ''QuotaExceededError'',
                   err_message = ''The quota has been exceeded.''\<rparr>"

definition full_engine :: "json \<Rightarrow> js_error option" where
  "full_engine v = Some quota_error"

text \<open>A stored text whose only message has no \<open>timestamp\<close> property.\<close>

definition undated_text :: json_text where
  "undated_text =
     JsonText (JArr [JObj [(''id'', JStr ''s1''), (''title'', JStr ''Chat''),
        (''messages'', JArr [JObj [(''id'', JStr ''m1''), (''role'', JStr ''user''),
                                   (''content'', JStr ''hi'')]]),
        (''createdAt'', JIso 1000), (''updatedAt'', JIso 1000)]])"

text \<open>The session that initialization builds from \<open>undated_text\<close>.\<close>

definition undated_session :: ChatSession where
  "undated_session =
     \<lparr>session_id = ''s1'', title = ''Chat'',
      messages = [\<lparr>msg_id = ''m1'', role = User, content = ''hi'',
                   timestamp = InvalidDate, tokens = None\<rparr>],
      createdAt = Date 1000, updatedAt = Date 1000\<rparr>"

text \<open>
  Two calls in quick succession on the initial store: \<open>sendMessage('a')\<close>, and
  \<open>sendMessage('b')\<close> from the next render while the first is still waiting.
\<close>

definition first_call :: "pending_call \<times> store" where
  "first_call = sendMessage_start (render initial_store) seed_s1 seed_u1 ''a'' None
     initial_store"

definition second_call :: "pending_call \<times> store" where
  "second_call = sendMessage_start (render (snd first_call)) seed_s1 seed_u2 ''b'' None
     (snd first_call)"

text \<open>
  Two exchanges one after the other on the initial store, neither call naming a session:
  the first creates the session \<open>s1\<close> and is answered with 42 tokens, the second is
  answered with 58.
\<close>

definition after_first :: store where
  "after_first = snd (sendMessage seed_s1 seed_u1 seed_a1 '''' (completion ''one'' 42)
     ''a'' None initial_store)"

definition after_second :: store where
  "after_second = snd (sendMessage seed_s1 seed_u2 seed_a2 '''' (completion ''two'' 58)
     ''b'' None after_first)"

text \<open>The same two exchanges on the store whose session was created beforehand.\<close>

definition created_first :: store where
  "created_first = snd (sendMessage seed_s1 seed_u1 seed_a1 '''' (completion ''one'' 42)
     ''a'' None one_session_store)"

definition created_second :: store where
  "created_second = snd (sendMessage seed_s1 seed_u2 seed_a2 '''' (completion ''two'' 58)
     ''b'' None created_first)"

text \<open>
  The session of \<open>one_session_store\<close> is deleted while \<open>sendMessage('hi')\<close> is
  waiting, and then the completion arrives.
\<close>

definition deleted_while_pending :: store where
  "deleted_while_pending = deleteSession (render (snd pending_hi)) ''s1'' (snd pending_hi)"

definition answered_after_delete :: store where
  "answered_after_delete =
     snd (sendMessage_resume (fst pending_hi) seed_a1 ''''
            (settle deleted_while_pending (fst pending_hi) Waiting (completion ''hello'' 42))
            deleted_while_pending)"

text \<open>
  Eleven sessions \<open>s1\<close> to \<open>s11\<close>, created one after the other at the times 1 to
  11, so that \<open>s11\<close> is first in the list and \<open>s1\<close> last.
\<close>

definition numbered_seed :: "nat \<Rightarrow> session_seed" where
  "numbered_seed n = \<lparr>seed_session_id = ''s'' @ decimal n, seed_locale_date = ''1/2/2026'',
                       seed_createdAt = int n, seed_updatedAt = int n\<rparr>"

definition eleven_sessions :: store where
  "eleven_sessions =
     fold (\<lambda>n st. snd (createNewSession (numbered_seed n) None st)) [1..<12] initial_store"

text \<open>Then the oldest session \<open>s1\<close> is selected.\<close>

definition oldest_selected :: store where
  "oldest_selected = selectSession (render eleven_sessions) ''s1'' eleven_sessions"

text \<open>Or an exchange takes place in the oldest session \<open>s1\<close>, at the times 2000 to 3001.\<close>

definition oldest_used :: store where
  "oldest_used = snd (sendMessage seed_s1 seed_u1 seed_a1 '''' (completion ''one'' 42) ''hi''
     (Some ''s1'') eleven_sessions)"

text \<open>What the quota recovery leaves of \<open>oldest_selected\<close> when the engine is full.\<close>

definition truncated_store :: store where
  "truncated_store =
     saved_store (saveSessionsToStorage (render oldest_selected) full_engine None
       oldest_selected)"

text \<open>
  Two calls in quick succession on \<open>answered_after_delete\<close>, a store whose active
  session is not in the set.
\<close>

definition first_on_orphan :: "pending_call \<times> store" where
  "first_on_orphan = sendMessage_start (render answered_after_delete) seed_s1 seed_u1 ''a''
     None answered_after_delete"

definition second_on_orphan :: "pending_call \<times> store" where
  "second_on_orphan = sendMessage_start (render (snd first_on_orphan)) seed_s1 seed_u2 ''b''
     None (snd first_on_orphan)"

section \<open>Lemmas shared by the claims\<close>

lemma replace_session_ids: "session_id ` set (replace_session u ss) = session_id ` set ss"
  unfolding replace_session_def by (induction ss) auto

lemma find_id_in:
  "find (\<lambda>s. session_id s = k) ss = Some x \<Longrightarrow> session_id x = k \<and> k \<in> session_id ` set ss"
  by (induction ss) (auto split: if_splits)

lemma find_in_set: "find P xs = Some x \<Longrightarrow> x \<in> set xs \<and> P x"
  by (induction xs) (auto split: if_splits)

lemma first_or_null_mem: "first_or_null xs = Some x \<Longrightarrow> x \<in> set xs"
  by (cases xs) (auto simp: first_or_null_def)

lemma clear_ids:
  "session_id ` set (map (\<lambda>s. if session_id s = x then s\<lparr>messages := [], updatedAt := d\<rparr> else s) ss)
     = session_id ` set ss"
  by (induction ss) auto

lemma create_inv: "active_in_set (snd (createNewSession seed t st))"
  by (simp add: createNewSession_def new_session_def active_in_set_def session_ids_def Let_def)

lemma select_inv: "active_in_set st \<Longrightarrow> active_in_set (selectSession (render st) x st)"
  by (auto simp: selectSession_def active_in_set_def session_ids_def render_def
      split: option.splits dest!: find_in_set)

lemma delete_inv: "active_in_set st \<Longrightarrow> active_in_set (deleteSession (render st) x st)"
proof -
  assume inv: "active_in_set st"
  show ?thesis
  proof (cases "current_is (currentSession st) x")
    case True
    then show ?thesis
      by (auto simp: deleteSession_def active_in_set_def session_ids_def render_def Let_def
          split: option.splits dest: first_or_null_mem)
  next
    case False
    with inv show ?thesis
      by (auto simp: deleteSession_def active_in_set_def session_ids_def render_def Let_def
          current_is_def split: option.splits)
  qed
qed

lemma clear_inv: "active_in_set st \<Longrightarrow> active_in_set (clearSession (render st) now x st)"
  unfolding clearSession_def active_in_set_def session_ids_def Let_def
  by (auto simp: clear_ids simp del: set_map split: option.splits)

lemma start_inv:
  "active_in_set st \<Longrightarrow>
   active_in_set (snd (sendMessage_start (render st) sseed mseed inp sid st))"
  by (auto simp: sendMessage_start_def active_in_set_def session_ids_def Let_def
      replace_session_ids createNewSession_def render_def current_is_def
      find_target_def simp del: set_map
      split: option.splits prod.splits if_splits dest!: find_id_in)

lemma start_target_in_set:
  "active_in_set st \<Longrightarrow>
   sendMessage_start (render st) sseed mseed inp sid st = (call, st') \<Longrightarrow>
   session_id (call_updatedSession call) \<in> session_ids st'"
  by (auto simp: sendMessage_start_def active_in_set_def session_ids_def Let_def
      replace_session_ids createNewSession_def render_def current_is_def
      find_target_def simp del: set_map
      split: option.splits prod.splits if_splits dest!: find_id_in)

lemma resume_inv:
  "active_in_set st \<Longrightarrow> session_id (call_updatedSession call) \<in> session_ids st \<Longrightarrow>
   active_in_set (snd (sendMessage_resume call rseed etxt outcome st))"
  unfolding sendMessage_resume_def active_in_set_def session_ids_def Let_def
  by (auto simp: replace_session_ids simp del: set_map
      split: option.splits prod.splits sum.splits if_splits)

lemma send_inv:
  assumes "active_in_set st"
  shows "active_in_set (snd (sendMessage sseed mseed rseed etxt network inp sid st))"
proof -
  obtain call st1 where s: "sendMessage_start (render st) sseed mseed inp sid st = (call, st1)"
    by (cases "sendMessage_start (render st) sseed mseed inp sid st")
  from start_inv[OF assms, of sseed mseed inp sid] s have i1: "active_in_set st1" by simp
  from start_target_in_set[OF assms s]
  have "active_in_set (snd (sendMessage_resume call rseed etxt (settle st1 call Waiting network) st1))"
    by (rule resume_inv[OF i1])
  then show ?thesis by (simp add: sendMessage_def s)
qed

lemma delete_active:
  "currentSession st = Some c \<Longrightarrow>
   sessions (deleteSession (render st) (session_id c) st)
     = filter (\<lambda>s. session_id s \<noteq> session_id c) (sessions st)
   \<and> currentSession (deleteSession (render st) (session_id c) st)
     = (case filter (\<lambda>s. session_id s \<noteq> session_id c) (sessions st) of
          [] \<Rightarrow> None | s # _ \<Rightarrow> Some s)"
  by (simp add: deleteSession_def render_def current_is_def first_or_null_def Let_def)




lemma start_call:
  assumes "sendMessage_start cl sseed mseed inp sid st = (call, st1)"
  shows "call = \<lparr>call_currentSession = c_currentSession cl,
                  call_updatedSession = (resolved_target cl sseed sid)\<lparr>
                     messages := messages (resolved_target cl sseed sid) @ [user_message mseed inp],
                     updatedAt := Date (seed_touched mseed)\<rparr>,
                  call_apiMessages = map (\<lambda>m. (role m, content m))
                       (messages (resolved_target cl sseed sid)) @ [(User, inp)],
                  call_signal = allocated st\<rparr>"
  using assms
  by (auto simp: sendMessage_start_def resolved_target_def createNewSession_def Let_def
      user_message_def split: option.splits)

lemma start_sessions:
  assumes "sendMessage_start cl sseed mseed inp sid st = (call, st1)"
  shows "sessions st1 = replace_session (call_updatedSession call)
           (case find_target cl sid of Some t \<Rightarrow> sessions st
            | None \<Rightarrow> new_session sseed None # sessions st)"
  using assms
  by (auto simp: sendMessage_start_def createNewSession_def Let_def split: option.splits)

lemma replace_mem:
  "session_id u \<in> session_id ` set ss \<Longrightarrow> u \<in> set (replace_session u ss)"
  unfolding replace_session_def by (induction ss) auto

lemma replace_unique:
  "s \<in> set (replace_session u ss) \<Longrightarrow> session_id s = session_id u \<Longrightarrow> s = u"
  unfolding replace_session_def by (induction ss) (auto split: if_splits)

lemma resume_sessions:
  "sessions (snd (sendMessage_resume call rseed etxt outcome st)) =
     (case try_block etxt outcome of
        Inr (reply, used) \<Rightarrow>
          replace_session ((call_updatedSession call)\<lparr>
              messages := messages (call_updatedSession call)
                 @ [\<lparr>msg_id = seed_msg_id rseed, role = Assistant, content = reply,
                      timestamp = Date (seed_timestamp rseed), tokens = used\<rparr>],
              updatedAt := Date (seed_touched rseed)\<rparr>) (sessions st)
      | Inl err \<Rightarrow>
          if err_name err = ''AbortError'' then sessions st
          else replace_session ((call_updatedSession call)\<lparr>
              messages := messages (call_updatedSession call)
                 @ [\<lparr>msg_id = seed_msg_id rseed, role = Assistant,
                      content = ''Error: '' @ handleApiError err,
                      timestamp = Date (seed_timestamp rseed), tokens = None\<rparr>],
              updatedAt := Date (seed_touched rseed)\<rparr>) (sessions st))"
  by (auto simp: sendMessage_resume_def Let_def split: sum.splits prod.splits)

lemma target_id_in_set:
  assumes "active_in_set st"
  shows "session_id (resolved_target (render st) sseed sid)
           \<in> session_id ` set (case find_target (render st) sid of Some t \<Rightarrow> sessions st
                | None \<Rightarrow> new_session sseed None # sessions st)"
  using assms
  by (auto simp: resolved_target_def find_target_def render_def active_in_set_def
      session_ids_def split: option.splits if_splits dest!: find_id_in)





lemma start_flags:
  assumes "sendMessage_start cl sseed mseed inp sid st = (call, st1)"
  shows "isLoading st1 \<and> error st1 = None \<and> allocated st1 = Suc (allocated st)
       \<and> abortControllerRef st1 = Some (allocated st)
       \<and> aborted st1 = (case abortControllerRef st of Some c \<Rightarrow> insert c (aborted st)
                          | None \<Rightarrow> aborted st)"
  using assms
  by (auto simp: sendMessage_start_def createNewSession_def Let_def
      split: option.splits if_splits)

lemma resume_success:
  assumes "try_block etxt outcome = Inr (reply, used)"
  shows "fst (sendMessage_resume call rseed etxt outcome st)
           = Some \<lparr>msg_id = seed_msg_id rseed, role = Assistant, content = reply,
                   timestamp = Date (seed_timestamp rseed), tokens = used\<rparr>
       \<and> error (snd (sendMessage_resume call rseed etxt outcome st)) = error st
       \<and> isLoading (snd (sendMessage_resume call rseed etxt outcome st)) = False"
  using assms by (simp add: sendMessage_resume_def Let_def)

lemma resume_failure:
  assumes "try_block etxt outcome = Inl err" and "err_name err \<noteq> ''AbortError''"
  shows "fst (sendMessage_resume call rseed etxt outcome st)
           = Some \<lparr>msg_id = seed_msg_id rseed, role = Assistant,
                   content = ''Error: '' @ handleApiError err,
                   timestamp = Date (seed_timestamp rseed), tokens = None\<rparr>
       \<and> error (snd (sendMessage_resume call rseed etxt outcome st)) = Some (handleApiError err)
       \<and> isLoading (snd (sendMessage_resume call rseed etxt outcome st)) = False
       \<and> sessions (snd (sendMessage_resume call rseed etxt outcome st))
           = replace_session ((call_updatedSession call)\<lparr>
               messages := messages (call_updatedSession call)
                 @ [\<lparr>msg_id = seed_msg_id rseed, role = Assistant,
                      content = ''Error: '' @ handleApiError err,
                      timestamp = Date (seed_timestamp rseed), tokens = None\<rparr>],
               updatedAt := Date (seed_touched rseed)\<rparr>) (sessions st)"
  using assms by (simp add: sendMessage_resume_def Let_def)

lemma resume_abort:
  assumes "try_block etxt outcome = Inl err" and "err_name err = ''AbortError''"
  shows "sendMessage_resume call rseed etxt outcome st = (None, st\<lparr>isLoading := False\<rparr>)"
  using assms by (simp add: sendMessage_resume_def Let_def)


lemma save_keeps_rest:
  "error (saved_store (saveSessionsToStorage cl engine slot st)) = error st
   \<and> isLoading (saved_store (saveSessionsToStorage cl engine slot st)) = isLoading st
   \<and> currentSession (saved_store (saveSessionsToStorage cl engine slot st)) = currentSession st"
  by (simp add: saveSessionsToStorage_def Let_def setItem_def split: option.splits)

lemma role_round_trip: "role_of_text (role_text r) = Some r"
  by (cases r) (simp_all add: role_of_text_def role_text_def)

lemma revive_message_json:
  "timestamp m \<noteq> InvalidDate \<Longrightarrow> revive_message (message_json m) = Read m"
  by (cases "timestamp m"; cases "tokens m")
     (simp_all add: revive_message_def message_json_def string_field_def tokens_field_def
        new_Date_def date_json_def role_round_trip)

lemma revive_messages_json:
  "list_all (\<lambda>m. timestamp m \<noteq> InvalidDate) ms \<Longrightarrow>
   read_all revive_message (map message_json ms) = Read ms"
  by (induction ms) (simp_all add: revive_message_json)

lemma revive_session_json:
  "valid_dates s \<Longrightarrow> revive_session (session_json s) = Read s"
  by (cases "createdAt s"; cases "updatedAt s")
     (simp_all add: valid_dates_def revive_session_def session_json_def map_json_def
        revive_messages_json string_field_def new_Date_def date_json_def)

lemma revive_sessions_json:
  "list_all valid_dates ss \<Longrightarrow> read_all revive_session (map session_json ss) = Read ss"
  by (induction ss) (simp_all add: revive_session_json)

lemma load_never_raises: "loadSessionsFromStorage stored st \<noteq> Raises"
  by (simp add: loadSessionsFromStorage_def Let_def split: reading.splits)

lemma start_controllers:
  assumes "sendMessage_start cl sseed mseed inp sid st = (call, st1)"
  shows "call_signal call = allocated st \<and> allocated st1 = Suc (allocated st)
       \<and> abortControllerRef st1 = Some (allocated st)
       \<and> aborted st1 = (case abortControllerRef st of Some c \<Rightarrow> insert c (aborted st)
                          | None \<Rightarrow> aborted st)"
  using start_flags[OF assms] start_call[OF assms] by simp

lemma start_single_flight:
  assumes sf: "single_flight st"
  shows "single_flight (snd (sendMessage_start cl sseed mseed inp sid st))"
proof -
  obtain call st1 where s: "sendMessage_start cl sseed mseed inp sid st = (call, st1)"
    by (cases "sendMessage_start cl sseed mseed inp sid st")
  note c = start_controllers[OF s]
  from sf have old: "\<And>c. c \<in> aborted st \<Longrightarrow> c < allocated st"
    and live: "\<And>c. c < allocated st \<Longrightarrow> c \<notin> aborted st \<Longrightarrow> abortControllerRef st = Some c"
    and ref: "\<And>r. abortControllerRef st = Some r \<Longrightarrow> r < allocated st"
    unfolding single_flight_def by (auto split: option.splits)
  have ab: "aborted st \<subseteq> aborted st1"
    using c by (auto split: option.splits)
  have p1: "\<forall>x \<in> aborted st1. x < allocated st1"
  proof
    fix x assume "x \<in> aborted st1"
    then have "x \<in> aborted st \<or> abortControllerRef st = Some x"
      using c by (auto split: option.splits)
    then have "x < allocated st" using old ref by blast
    then show "x < allocated st1" using c by simp
  qed
  have p2: "case abortControllerRef st1 of None \<Rightarrow> True | Some r \<Rightarrow> r < allocated st1"
    using c by simp
  have p3: "\<forall>x \<in> {..<allocated st1}. x \<notin> aborted st1 \<longrightarrow> abortControllerRef st1 = Some x"
  proof (intro ballI impI)
    fix x assume x: "x \<in> {..<allocated st1}" and n: "x \<notin> aborted st1"
    show "abortControllerRef st1 = Some x"
    proof (cases "x = allocated st")
      case True
      then show ?thesis using c by simp
    next
      case False
      with x c have lt: "x < allocated st" by simp
      from n ab have "x \<notin> aborted st" by blast
      from live[OF lt this] have "abortControllerRef st = Some x" .
      then have "x \<in> aborted st1" using c by simp
      with n show ?thesis by simp
    qed
  qed
  from p1 p2 p3 have "single_flight st1" unfolding single_flight_def by blast
  then show ?thesis by (simp add: s)
qed

lemma resume_controllers:
  "aborted (snd (sendMessage_resume call rseed etxt outcome st)) = aborted st
   \<and> allocated (snd (sendMessage_resume call rseed etxt outcome st)) = allocated st
   \<and> abortControllerRef (snd (sendMessage_resume call rseed etxt outcome st))
       = abortControllerRef st"
  by (simp add: sendMessage_resume_def Let_def split: sum.splits prod.splits)

lemma resume_single_flight:
  "single_flight st \<Longrightarrow> single_flight (snd (sendMessage_resume call rseed etxt outcome st))"
  unfolding single_flight_def by (simp add: resume_controllers split: option.splits)

lemma foldl_plus: "foldl (\<lambda>acc x. acc + f x) (a::int) xs = a + sum_list (map f xs)"
  by (induction xs arbitrary: a) simp_all

lemma create_puts_first:
  "sessions (snd (createNewSession seed t st)) = fst (createNewSession seed t st) # sessions st"
  by (simp add: createNewSession_def Let_def)

lemma resume_appends:
  assumes inset: "session_id (call_updatedSession call) \<in> session_ids st"
      and ret: "fst (sendMessage_resume call rseed etxt outcome st) = Some a"
  shows "(call_updatedSession call)\<lparr>
             messages := messages (call_updatedSession call) @ [a],
             updatedAt := Date (seed_touched rseed)\<rparr>
           \<in> set (sessions (snd (sendMessage_resume call rseed etxt outcome st)))"
proof -
  let ?upd = "call_updatedSession call"
  let ?f = "?upd\<lparr>messages := messages ?upd @ [a], updatedAt := Date (seed_touched rseed)\<rparr>"
  have mem: "?f \<in> set (replace_session ?f (sessions st))"
    by (rule replace_mem) (use inset in \<open>simp add: session_ids_def\<close>)
  show ?thesis
  proof (cases "try_block etxt outcome")
    case (Inr p)
    obtain reply used where p: "p = (reply, used)" by (cases p)
    from resume_success[OF Inr[unfolded p], of call rseed st] ret
    have a: "a = \<lparr>msg_id = seed_msg_id rseed, role = Assistant, content = reply,
                   timestamp = Date (seed_timestamp rseed), tokens = used\<rparr>"
      by simp
    show ?thesis
      using mem unfolding resume_sessions Inr p a by simp
  next
    case (Inl err)
    show ?thesis
    proof (cases "err_name err = ''AbortError''")
      case True
      from resume_abort[OF Inl True, of call rseed st] ret show ?thesis by simp
    next
      case False
      from resume_failure[OF Inl False, of call rseed st] ret
      have a: "a = \<lparr>msg_id = seed_msg_id rseed, role = Assistant,
                   content = ''Error: '' @ handleApiError err,
                   timestamp = Date (seed_timestamp rseed), tokens = None\<rparr>"
        by simp
      show ?thesis
        using mem False unfolding resume_sessions Inl a by simp
    qed
  qed
qed

section \<open>The active-session invariant\<close>

text \<open>
  The invariant \<open>active_in_set\<close> (the active-session reference, when set, has the id
  of a session of the set) holds initially and is kept by each operation the hook
  returns, when the operation is run as a whole from the render of the state it starts
  in: \<open>createNewSession\<close>, \<open>selectSession\<close>, \<open>deleteSession\<close>,
  \<open>clearSession\<close> and \<open>sendMessage\<close>. In every store state with an active
  session, \<open>deleteSession\<close> of the active session's id removes the sessions of that id
  and leaves the active reference at the first remaining session, or at none when no
  session remains.
\<close>

lemma whole_operations_keep_active_in_set:
  "active_in_set initial_store
   \<and> (active_in_set st \<longrightarrow>
        active_in_set (snd (createNewSession seed t st))
      \<and> active_in_set (selectSession (render st) x st)
      \<and> active_in_set (deleteSession (render st) x st)
      \<and> active_in_set (clearSession (render st) now x st)
      \<and> active_in_set (snd (sendMessage_start (render st) sseed mseed inp sid st))
      \<and> active_in_set (snd (sendMessage sseed mseed rseed etxt network inp sid st)))
   \<and> (currentSession st = Some c \<longrightarrow>
        sessions (deleteSession (render st) (session_id c) st)
          = filter (\<lambda>s. session_id s \<noteq> session_id c) (sessions st)
      \<and> currentSession (deleteSession (render st) (session_id c) st)
          = (case filter (\<lambda>s. session_id s \<noteq> session_id c) (sessions st) of
               [] \<Rightarrow> None | s # _ \<Rightarrow> Some s))"
proof (intro conjI impI)
  show "active_in_set initial_store"
    by (simp add: active_in_set_def initial_store_def)
next
  assume inv: "active_in_set st"
  show "active_in_set (snd (createNewSession seed t st))" by (rule create_inv)
  show "active_in_set (selectSession (render st) x st)" by (rule select_inv[OF inv])
  show "active_in_set (deleteSession (render st) x st)" by (rule delete_inv[OF inv])
  show "active_in_set (clearSession (render st) now x st)" by (rule clear_inv[OF inv])
  show "active_in_set (snd (sendMessage_start (render st) sseed mseed inp sid st))"
    by (rule start_inv[OF inv])
  show "active_in_set (snd (sendMessage sseed mseed rseed etxt network inp sid st))"
    by (rule send_inv[OF inv])
next
  assume cur: "currentSession st = Some c"
  show "sessions (deleteSession (render st) (session_id c) st)
          = filter (\<lambda>s. session_id s \<noteq> session_id c) (sessions st)"
    using delete_active[OF cur] by simp
  show "currentSession (deleteSession (render st) (session_id c) st)
          = (case filter (\<lambda>s. session_id s \<noteq> session_id c) (sessions st) of
               [] \<Rightarrow> None | s # _ \<Rightarrow> Some s)"
    using delete_active[OF cur] by simp
qed

text \<open>
  Claim C3 fails on the hook as a whole, in two places where the active reference is
  written or the session set is cut without a look at the other. First, the continuation
  of \<open>sendMessage\<close> sets the active reference to its finished session whenever the
  closure of the call had that session active, also when the session has been deleted in
  the meantime: \<open>sendMessage('hi')\<close> on the store with the one session \<open>s1\<close>, then
  \<open>deleteSession('s1')\<close> while the request is pending, then the completion, ends with
  an empty session set and \<open>s1\<close> active. Second, the quota recovery of
  \<open>saveSessionsToStorage\<close> keeps the first ten sessions and leaves the active
  reference alone: with eleven sessions and the last one selected, the recovery ends
  with ten sessions and the dropped one active. \<open>deleteSession\<close> itself reassigns the
  reference as the claim says.
\<close>

theorem active_session_left_outside_the_set:
  "active_in_set (snd pending_hi)
   \<and> active_in_set deleted_while_pending
   \<and> sessions answered_after_delete = []
   \<and> map_option session_id (currentSession answered_after_delete) = Some ''s1''
   \<and> \<not> active_in_set answered_after_delete
   \<and> active_in_set oldest_selected
   \<and> map_option session_id (currentSession oldest_selected) = Some ''s1''
   \<and> map session_id (sessions truncated_store)
       = [''s11'', ''s10'', ''s9'', ''s8'', ''s7'', ''s6'', ''s5'', ''s4'', ''s3'', ''s2'']
   \<and> map_option session_id (currentSession truncated_store) = Some ''s1''
   \<and> \<not> active_in_set truncated_store"
  by code_simp

section \<open>The user message and the request\<close>

text \<open>
  What one call of \<open>sendMessage\<close> does to the session it works on
  (\<open>resolved_target\<close>: the session of the given id in the closure's list, else the
  closure's active session, else a new one), from a store state that satisfies
  \<open>active_in_set\<close>: when the request is issued, that session has got exactly one more
  message at the end of its list, a user-role message holding the content; the session
  set holds the session in that form, and no other session of that id; the
  \<open>messages\<close> of the request body end with that message; and the continuation of the
  call, run on that state, leaves the message in place.
\<close>

lemma call_appends_to_resolved_target:
  assumes inv: "active_in_set st"
      and start: "sendMessage_start (render st) sseed mseed inp sid st = (call, st1)"
  shows "role (user_message mseed inp) = User \<and> content (user_message mseed inp) = inp
    \<and> session_id (call_updatedSession call) = session_id (resolved_target (render st) sseed sid)
    \<and> messages (call_updatedSession call)
         = messages (resolved_target (render st) sseed sid) @ [user_message mseed inp]
    \<and> call_updatedSession call \<in> set (sessions st1)
    \<and> (\<forall>s \<in> set (sessions st1).
          session_id s = session_id (resolved_target (render st) sseed sid)
          \<longrightarrow> s = call_updatedSession call)
    \<and> call_apiMessages call
         = map (\<lambda>m. (role m, content m)) (messages (resolved_target (render st) sseed sid))
           @ [(User, inp)]
    \<and> (\<forall>rseed etxt outcome.
          \<exists>s \<in> set (sessions (snd (sendMessage_resume call rseed etxt outcome st1))).
            session_id s = session_id (resolved_target (render st) sseed sid)
            \<and> (messages s = messages (resolved_target (render st) sseed sid)
                   @ [user_message mseed inp]
               \<or> (\<exists>a. role a = Assistant
                    \<and> messages s = messages (resolved_target (render st) sseed sid)
                        @ [user_message mseed inp, a])))"
proof -
  let ?t = "resolved_target (render st) sseed sid"
  let ?u = "user_message mseed inp"
  let ?upd = "call_updatedSession call"
  have upd: "?upd = ?t\<lparr>messages := messages ?t @ [?u], updatedAt := Date (seed_touched mseed)\<rparr>"
    and api: "call_apiMessages call = map (\<lambda>m. (role m, content m)) (messages ?t) @ [(User, inp)]"
    using start_call[OF start] by simp_all
  have id: "session_id ?upd = session_id ?t" and ms: "messages ?upd = messages ?t @ [?u]"
    by (simp_all add: upd)
  have idin: "session_id ?upd \<in> session_id ` set (case find_target (render st) sid of
                Some t \<Rightarrow> sessions st | None \<Rightarrow> new_session sseed None # sessions st)"
    using target_id_in_set[OF inv, of sseed sid] by (simp add: id)
  have mem: "?upd \<in> set (sessions st1)"
    unfolding start_sessions[OF start] by (rule replace_mem[OF idin])
  have uniq: "\<forall>s \<in> set (sessions st1). session_id s = session_id ?t \<longrightarrow> s = ?upd"
    unfolding start_sessions[OF start] by (auto simp: id[symmetric] dest: replace_unique)
  have after: "\<exists>s \<in> set (sessions (snd (sendMessage_resume call rseed etxt outcome st1))).
            session_id s = session_id ?t
            \<and> (messages s = messages ?t @ [?u]
               \<or> (\<exists>a. role a = Assistant \<and> messages s = messages ?t @ [?u, a]))"
    for rseed etxt outcome
  proof -
    have in1: "session_id ?upd \<in> session_id ` set (sessions st1)"
      using mem by blast
    show ?thesis
    proof (cases "try_block etxt outcome")
      case (Inr p)
      obtain reply used where p: "p = (reply, used)" by (cases p)
      let ?a = "\<lparr>msg_id = seed_msg_id rseed, role = Assistant, content = reply,
                      timestamp = Date (seed_timestamp rseed), tokens = used\<rparr>"
      let ?f = "?upd\<lparr>messages := messages ?upd @ [?a], updatedAt := Date (seed_touched rseed)\<rparr>"
      have "?f \<in> set (replace_session ?f (sessions st1))"
        by (rule replace_mem) (use in1 in simp)
      moreover have "session_id ?f = session_id ?t" "messages ?f = messages ?t @ [?u, ?a]"
        by (simp_all add: id ms)
      moreover have "role ?a = Assistant" by simp
      ultimately show ?thesis
        unfolding resume_sessions Inr p by (intro bexI[of _ ?f]) auto
    next
      case (Inl err)
      show ?thesis
      proof (cases "err_name err = ''AbortError''")
        case True
        then show ?thesis
          unfolding resume_sessions Inl using mem id ms by (intro bexI[of _ ?upd]) auto
      next
        case False
        let ?a = "\<lparr>msg_id = seed_msg_id rseed, role = Assistant,
                      content = ''Error: '' @ handleApiError err,
                      timestamp = Date (seed_timestamp rseed), tokens = None\<rparr>"
        let ?f = "?upd\<lparr>messages := messages ?upd @ [?a], updatedAt := Date (seed_touched rseed)\<rparr>"
        have "?f \<in> set (replace_session ?f (sessions st1))"
          by (rule replace_mem) (use in1 in simp)
        moreover have "session_id ?f = session_id ?t" "messages ?f = messages ?t @ [?u, ?a]"
          by (simp_all add: id ms)
        moreover have "role ?a = Assistant" by simp
        ultimately show ?thesis
          unfolding resume_sessions Inl using False by (intro bexI[of _ ?f]) auto
      qed
    qed
  qed
  have r: "role ?u = User \<and> content ?u = inp" by (simp add: user_message_def)
  from r id ms mem uniq api after show ?thesis by blast
qed

text \<open>
  Claim C1 fails where the closure's active session is not the stored one. After the
  first exchange on the initial store the stored session \<open>s1\<close> holds the messages
  \<open>m1\<close> and \<open>m2\<close>, but the active reference is still the empty session that
  \<open>createNewSession\<close> made. The next \<open>sendMessage('b')\<close> works on that empty
  copy: the stored list \<open>[m1, m2]\<close> is replaced by \<open>[m3]\<close>, not extended by one
  message, and the request body holds \<open>b\<close> alone. The same happens to a call that is
  cancelled: of two calls in quick succession on the initial store, the first returns
  \<open>null\<close>, and by then the session holds the second call's \<open>b\<close> only, the first
  call's \<open>a\<close> is gone.
\<close>

theorem user_message_replaces_stored_history:
  "map (map msg_id \<circ> messages) (sessions after_first) = [[''m1'', ''m2'']]
   \<and> map (map msg_id \<circ> messages)
         (sessions (snd (sendMessage_start (render after_first) seed_s1 seed_u2 ''b'' None
            after_first))) = [[''m3'']]
   \<and> call_apiMessages (fst (sendMessage_start (render after_first) seed_s1 seed_u2 ''b''
         None after_first)) = [(User, ''b'')]
   \<and> map (map content \<circ> messages) (sessions (snd first_call)) = [[''a'']]
   \<and> map (map content \<circ> messages) (sessions (snd second_call)) = [[''b'']]
   \<and> fst (sendMessage_resume (fst first_call) seed_a1 ''''
         (settle (snd second_call) (fst first_call) Waiting (completion ''one'' 42))
         (snd second_call)) = None
   \<and> map (map content \<circ> messages)
         (sessions (snd (sendMessage_resume (fst first_call) seed_a1 ''''
            (settle (snd second_call) (fst first_call) Waiting (completion ''one'' 42))
            (snd second_call)))) = [[''b'']]"
  by code_simp

section \<open>Content that is empty after trimming\<close>




section \<open>HTTP 429\<close>




section \<open>A 2xx answer without completion text\<close>

text \<open>
  Claim C9 says that an answer lacking \<open>choices[0].message.content\<close> becomes an
  error. The hook falls back to the text \<open>No response\<close>
  (\<open>data.choices[0]?.message?.content || 'No response'\<close>): for a 2xx answer with an
  empty \<open>choices\<close> array the call returns an ordinary assistant message with that
  content and the error state stays empty.
\<close>

theorem missing_completion_counterexample:
  "fst (sendMessage seed_s1 seed_u1 seed_a1 ''''
          (OkBody (Inr \<lparr>choices = Some [], usage = None\<rparr>)) ''hi'' None one_session_store)
     = Some \<lparr>msg_id = ''m2'', role = Assistant, content = ''No response'',
             timestamp = Date 3000, tokens = None\<rparr>
   \<and> error (snd (sendMessage seed_s1 seed_u1 seed_a1 ''''
          (OkBody (Inr \<lparr>choices = Some [], usage = None\<rparr>)) ''hi'' None one_session_store))
     = None"
  by code_simp

text \<open>
  Claim C9 as amended. For every 2xx answer whose \<open>choices\<close> array is present and
  whose first choice has no non-empty \<open>message.content\<close> (or which has no choice at
  all), \<open>sendMessage\<close> returns an assistant-role message with the content
  \<open>No response\<close> and the token count of the answer, leaves the error state as it
  was and clears the loading flag; the message is appended to the session of the call in
  the session set, when a session of that id is in the set. For every 2xx answer from
  which \<open>choices[0]\<close> cannot be read at all, the \<open>TypeError\<close> takes the error
  path: the call returns an assistant-role message whose content is \<open>Error: \<close>
  followed by what \<open>handleApiError\<close> makes of that error, the error state holds the
  same text, and the message is appended to the session likewise.
\<close>

theorem missing_completion_text:
  "(choices data = Some cs \<and> \<not> truthy (first_content cs) \<longrightarrow>
      fst (sendMessage_resume call rseed etxt (OkBody (Inr data)) st)
        = Some \<lparr>msg_id = seed_msg_id rseed, role = Assistant, content = ''No response'',
                timestamp = Date (seed_timestamp rseed), tokens = usage_total (usage data)\<rparr>
    \<and> error (snd (sendMessage_resume call rseed etxt (OkBody (Inr data)) st)) = error st
    \<and> isLoading (snd (sendMessage_resume call rseed etxt (OkBody (Inr data)) st)) = False
    \<and> (session_id (call_updatedSession call) \<in> session_ids st \<longrightarrow>
          (call_updatedSession call)\<lparr>
            messages := messages (call_updatedSession call)
              @ [\<lparr>msg_id = seed_msg_id rseed, role = Assistant, content = ''No response'',
                   timestamp = Date (seed_timestamp rseed),
                   tokens = usage_total (usage data)\<rparr>],
            updatedAt := Date (seed_touched rseed)\<rparr>
          \<in> set (sessions (snd (sendMessage_resume call rseed etxt (OkBody (Inr data)) st)))))
   \<and> (choices data = None \<longrightarrow>
      fst (sendMessage_resume call rseed etxt (OkBody (Inr data)) st)
        = Some \<lparr>msg_id = seed_msg_id rseed, role = Assistant,
                content = ''Error: ''
                  @ handleApiError \<lparr>err_name = ''TypeError'', err_message = etxt\<rparr>,
                timestamp = Date (seed_timestamp rseed), tokens = None\<rparr>
    \<and> error (snd (sendMessage_resume call rseed etxt (OkBody (Inr data)) st))
        = Some (handleApiError \<lparr>err_name = ''TypeError'', err_message = etxt\<rparr>)
    \<and> (session_id (call_updatedSession call) \<in> session_ids st \<longrightarrow>
          (call_updatedSession call)\<lparr>
            messages := messages (call_updatedSession call)
              @ [\<lparr>msg_id = seed_msg_id rseed, role = Assistant,
                   content = ''Error: ''
                     @ handleApiError \<lparr>err_name = ''TypeError'', err_message = etxt\<rparr>,
                   timestamp = Date (seed_timestamp rseed), tokens = None\<rparr>],
            updatedAt := Date (seed_touched rseed)\<rparr>
          \<in> set (sessions (snd (sendMessage_resume call rseed etxt (OkBody (Inr data)) st)))))"
proof (intro conjI impI)
  assume a: "choices data = Some cs \<and> \<not> truthy (first_content cs)"
  then have tb: "try_block etxt (OkBody (Inr data)) = Inr (''No response'', usage_total (usage data))"
    by (simp add: try_block_def)
  from resume_success[OF tb, of call rseed st]
  show ret: "fst (sendMessage_resume call rseed etxt (OkBody (Inr data)) st)
        = Some \<lparr>msg_id = seed_msg_id rseed, role = Assistant, content = ''No response'',
                timestamp = Date (seed_timestamp rseed), tokens = usage_total (usage data)\<rparr>"
    and "error (snd (sendMessage_resume call rseed etxt (OkBody (Inr data)) st)) = error st"
    and "isLoading (snd (sendMessage_resume call rseed etxt (OkBody (Inr data)) st)) = False"
    by simp_all
  assume "session_id (call_updatedSession call) \<in> session_ids st"
  from resume_appends[OF this ret]
  show "(call_updatedSession call)\<lparr>
            messages := messages (call_updatedSession call)
              @ [\<lparr>msg_id = seed_msg_id rseed, role = Assistant, content = ''No response'',
                   timestamp = Date (seed_timestamp rseed),
                   tokens = usage_total (usage data)\<rparr>],
            updatedAt := Date (seed_touched rseed)\<rparr>
          \<in> set (sessions (snd (sendMessage_resume call rseed etxt (OkBody (Inr data)) st)))" .
next
  assume a: "choices data = None"
  let ?e = "\<lparr>err_name = ''TypeError'', err_message = etxt\<rparr>"
  have tb: "try_block etxt (OkBody (Inr data)) = Inl ?e"
    using a by (simp add: try_block_def)
  have n: "err_name ?e \<noteq> ''AbortError''" by simp
  from resume_failure[OF tb n, of call rseed st]
  show ret: "fst (sendMessage_resume call rseed etxt (OkBody (Inr data)) st)
        = Some \<lparr>msg_id = seed_msg_id rseed, role = Assistant,
                content = ''Error: '' @ handleApiError ?e,
                timestamp = Date (seed_timestamp rseed), tokens = None\<rparr>"
    and "error (snd (sendMessage_resume call rseed etxt (OkBody (Inr data)) st))
        = Some (handleApiError ?e)"
    by simp_all
  assume "session_id (call_updatedSession call) \<in> session_ids st"
  from resume_appends[OF this ret]
  show "(call_updatedSession call)\<lparr>
            messages := messages (call_updatedSession call)
              @ [\<lparr>msg_id = seed_msg_id rseed, role = Assistant,
                   content = ''Error: '' @ handleApiError ?e,
                   timestamp = Date (seed_timestamp rseed), tokens = None\<rparr>],
            updatedAt := Date (seed_touched rseed)\<rparr>
          \<in> set (sessions (snd (sendMessage_resume call rseed etxt (OkBody (Inr data)) st)))" .
qed

theorem missing_completion_text_witness:
  "choices \<lparr>choices = Some [], usage = None\<rparr> = Some []
   \<and> \<not> truthy (first_content [])
   \<and> session_id (call_updatedSession (fst pending_hi)) \<in> session_ids (snd pending_hi)
   \<and> fst (sendMessage_resume (fst pending_hi) seed_a1 ''''
          (OkBody (Inr \<lparr>choices = Some [], usage = None\<rparr>)) (snd pending_hi))
       = Some \<lparr>msg_id = ''m2'', role = Assistant, content = ''No response'',
               timestamp = Date 3000, tokens = None\<rparr>
   \<and> (call_updatedSession (fst pending_hi))\<lparr>
         messages := messages (call_updatedSession (fst pending_hi))
           @ [\<lparr>msg_id = ''m2'', role = Assistant, content = ''No response'',
                timestamp = Date 3000, tokens = None\<rparr>],
         updatedAt := Date 3001\<rparr>
       \<in> set (sessions (snd (sendMessage_resume (fst pending_hi) seed_a1 ''''
          (OkBody (Inr \<lparr>choices = Some [], usage = None\<rparr>)) (snd pending_hi))))"
proof -
  have c: "choices \<lparr>choices = Some [], usage = None\<rparr> = Some []" by simp
  have f: "\<not> truthy (first_content [])" by (simp add: first_content_def)
  have inset: "session_id (call_updatedSession (fst pending_hi)) \<in> session_ids (snd pending_hi)"
    by code_simp
  from missing_completion_text
         [of "\<lparr>choices = Some [], usage = None\<rparr>" "[]" "fst pending_hi" seed_a1 "''''"
             "snd pending_hi"] c f inset
  show ?thesis by (simp add: seed_a1_def usage_total_def)
qed

section \<open>Initialization from the storage slot\<close>

text \<open>
  Claim C6. \<open>loadSessionsFromStorage\<close> never raises, whatever the slot holds. With
  no item, an empty item or an item that \<open>JSON.parse\<close> rejects, the initial store
  stays as it is, with an empty session set; in any store an unparseable item, or one
  that parses to an object instead of an array, gives the empty session set. When the
  slot holds what \<open>JSON.stringify\<close> wrote for sessions whose dates are all valid,
  the load gives back exactly those sessions, every \<open>createdAt\<close>, \<open>updatedAt\<close> and
  message \<open>timestamp\<close> rebuilt from its text, and makes the first one active.
\<close>

theorem initialization_tolerates_bad_storage:
  "loadSessionsFromStorage stored st \<noteq> Raises
   \<and> loadSessionsFromStorage None initial_store = Read initial_store
   \<and> loadSessionsFromStorage (Some EmptyText) initial_store = Read initial_store
   \<and> loadSessionsFromStorage (Some Garbage) initial_store = Read initial_store
   \<and> sessions initial_store = []
   \<and> loadSessionsFromStorage (Some Garbage) st = Read (st\<lparr>sessions := []\<rparr>)
   \<and> loadSessionsFromStorage (Some (JsonText (JObj kv))) st = Read (st\<lparr>sessions := []\<rparr>)
   \<and> (list_all valid_dates ss \<longrightarrow>
        loadSessionsFromStorage (Some (JsonText (sessions_json ss))) st
          = Read (st\<lparr>sessions := ss,
                      currentSession := (case ss of [] \<Rightarrow> currentSession st
                                         | first # _ \<Rightarrow> Some first)\<rparr>))"
proof -
  have valid: "loadSessionsFromStorage (Some (JsonText (sessions_json ss))) st
          = Read (st\<lparr>sessions := ss,
                      currentSession := (case ss of [] \<Rightarrow> currentSession st
                                         | first # _ \<Rightarrow> Some first)\<rparr>)"
    if "list_all valid_dates ss"
    using revive_sessions_json[OF that]
    by (simp add: loadSessionsFromStorage_def JSON_parse_def map_json_def sessions_json_def
        Let_def split: list.splits)
  have i: "initial_store\<lparr>sessions := []\<rparr> = initial_store"
    by (simp add: initial_store_def)
  have g: "loadSessionsFromStorage (Some Garbage) st = Read (st\<lparr>sessions := []\<rparr>)" for st
    by (simp add: loadSessionsFromStorage_def JSON_parse_def)
  have b: "loadSessionsFromStorage (Some (JsonText (JObj kv))) st = Read (st\<lparr>sessions := []\<rparr>)"
    by (simp add: loadSessionsFromStorage_def JSON_parse_def map_json_def)
  have n: "loadSessionsFromStorage None initial_store = Read initial_store"
    "loadSessionsFromStorage (Some EmptyText) initial_store = Read initial_store"
    by (simp_all add: loadSessionsFromStorage_def)
  have e: "sessions initial_store = []" by (simp add: initial_store_def)
  from load_never_raises[of stored st] n g[of initial_store] g[of st] b i e valid
  show ?thesis by simp
qed


theorem initialization_tolerates_bad_storage_witness:
  "list_all valid_dates [new_session seed_s1 None]
   \<and> loadSessionsFromStorage
        (Some (JsonText (sessions_json [new_session seed_s1 None]))) initial_store
       = Read one_session_store"
proof -
  have v: "list_all valid_dates [new_session seed_s1 None]"
    by (simp add: valid_dates_def new_session_def)
  have o: "one_session_store
             = initial_store\<lparr>sessions := [new_session seed_s1 None],
                 currentSession := Some (new_session seed_s1 None)\<rparr>"
    by (simp add: one_session_store_def createNewSession_def Let_def initial_store_def)
  from initialization_tolerates_bad_storage
         [where st = initial_store and ss = "[new_session seed_s1 None]"] v
  show ?thesis by (simp add: o)
qed

section \<open>Export and re-import\<close>

text \<open>
  Claim C7 says that the export of every session of the store, re-imported through the
  storage deserialization, gives the same message list. Two things stand against it.
  The export is the text of one session object, while \<open>loadSessionsFromStorage\<close>
  maps over an array: given the exported text it catches the \<open>TypeError\<close> and ends
  with the empty session set. And a session can hold an invalid date (initialization
  builds one from a stored message without \<open>timestamp\<close>); \<open>JSON.stringify\<close> writes
  it as \<open>null\<close>, which is read back as the time value 0.
\<close>

theorem export_reimport_counterexample:
  "exportSession (render (snd pending_hi)) ''s1''
     = JsonText (session_json (call_updatedSession (fst pending_hi)))
   \<and> loadSessionsFromStorage (Some (exportSession (render (snd pending_hi)) ''s1''))
        initial_store
     = Read initial_store
   \<and> sessions initial_store = []
   \<and> loadSessionsFromStorage (Some undated_text) initial_store
     = Read (initial_store\<lparr>sessions := [undated_session],
                            currentSession := Some undated_session\<rparr>)
   \<and> revive_session (session_json undated_session)
     = Read (undated_session\<lparr>messages :=
               [\<lparr>msg_id = ''m1'', role = User, content = ''hi'',
                  timestamp = Date 0, tokens = None\<rparr>]\<rparr>)
   \<and> map timestamp (messages undated_session) = [InvalidDate]"
  by code_simp

text \<open>
  Claim C7 as amended. For every session that \<open>exportSession\<close> finds under the given
  id and whose dates are all valid, the export in the JSON format is the text of that
  session, and the per-session step of the storage deserialization (\<open>revive_session\<close>,
  the callback that \<open>loadSessionsFromStorage\<close> maps over the stored array) rebuilds
  from it the same session, so the same messages in the same order with the same ids,
  roles, contents, timestamps and token counts; \<open>loadSessionsFromStorage\<close> itself,
  given the exported text, ends with the empty session set. Exporting an id that no
  session has gives the empty string.
\<close>

theorem export_then_revive:
  "(find (\<lambda>s. session_id s = x) (sessions st) = Some s \<and> valid_dates s \<longrightarrow>
      exportSession (render st) x = JsonText (session_json s)
    \<and> revive_session (session_json s) = Read s
    \<and> loadSessionsFromStorage (Some (exportSession (render st) x)) st2
        = Read (st2\<lparr>sessions := []\<rparr>))
   \<and> (find (\<lambda>s. session_id s = x) (sessions st) = None \<longrightarrow>
      exportSession (render st) x = EmptyText)"
proof (intro conjI impI)
  assume a: "find (\<lambda>s. session_id s = x) (sessions st) = Some s \<and> valid_dates s"
  then show e: "exportSession (render st) x = JsonText (session_json s)"
    by (simp add: exportSession_def render_def)
  from a show "revive_session (session_json s) = Read s"
    by (simp add: revive_session_json)
  show "loadSessionsFromStorage (Some (exportSession (render st) x)) st2
        = Read (st2\<lparr>sessions := []\<rparr>)"
    unfolding e
    by (simp add: loadSessionsFromStorage_def JSON_parse_def map_json_def session_json_def)
next
  assume "find (\<lambda>s. session_id s = x) (sessions st) = None"
  then show "exportSession (render st) x = EmptyText"
    by (simp add: exportSession_def render_def)
qed

theorem export_then_revive_witness:
  "find (\<lambda>s. session_id s = ''s1'') (sessions (snd pending_hi))
     = Some (call_updatedSession (fst pending_hi))
   \<and> valid_dates (call_updatedSession (fst pending_hi))
   \<and> revive_session (session_json (call_updatedSession (fst pending_hi)))
     = Read (call_updatedSession (fst pending_hi))
   \<and> find (\<lambda>s. session_id s = ''zz'') (sessions (snd pending_hi)) = None
   \<and> exportSession (render (snd pending_hi)) ''zz'' = EmptyText"
proof -
  have f: "find (\<lambda>s. session_id s = ''s1'') (sessions (snd pending_hi))
     = Some (call_updatedSession (fst pending_hi))"
    by code_simp
  have v: "valid_dates (call_updatedSession (fst pending_hi))"
    by code_simp
  have n: "find (\<lambda>s. session_id s = ''zz'') (sessions (snd pending_hi)) = None"
    by code_simp
  from export_then_revive[of "''s1''" "snd pending_hi" "call_updatedSession (fst pending_hi)"]
       export_then_revive[of "''zz''" "snd pending_hi"] f v n
  show ?thesis by blast
qed

section \<open>A full storage engine\<close>

text \<open>
  Claim C10 says that the quota recovery keeps the ten most recent sessions. The hook
  keeps the first ten of its list (\<open>sessions.slice(0, 10)\<close>), and the list is in the
  order of creation, whatever happened to the sessions since. Create eleven sessions and
  then have an exchange in the oldest one, \<open>s1\<close>: it is the session used last, with
  the latest \<open>updatedAt\<close>, it is still last in the list, and it is the one the
  recovery drops.
\<close>

theorem most_recently_used_session_dropped:
  "full_engine (sessions_json (sessions oldest_used)) = Some quota_error
   \<and> map session_id (sessions oldest_used)
       = [''s11'', ''s10'', ''s9'', ''s8'', ''s7'', ''s6'', ''s5'', ''s4'', ''s3'', ''s2'', ''s1'']
   \<and> map updatedAt (sessions oldest_used)
       = [Date 11, Date 10, Date 9, Date 8, Date 7, Date 6, Date 5, Date 4, Date 3, Date 2,
          Date 3001]
   \<and> map session_id (sessions (saved_store
         (saveSessionsToStorage (render oldest_used) full_engine None oldest_used)))
       = [''s11'', ''s10'', ''s9'', ''s8'', ''s7'', ''s6'', ''s5'', ''s4'', ''s3'', ''s2'']"
  by code_simp

text \<open>
  Claim C10 as amended. When the write of one run of \<open>saveSessionsToStorage\<close>,
  called from the current render, fails with a \<open>QuotaExceededError\<close>, the session
  set of the store becomes the first ten sessions of its list and nothing else of the
  store changes; in that run \<open>setItem\<close> is called exactly twice, first with all
  sessions and then with those ten. If the second write succeeds the slot holds the ten
  sessions and one line was logged; if it fails too, a second line is logged, the slot is
  as it was and the store keeps the ten sessions. Whatever the engine does, the run ends
  normally and the store's \<open>error\<close>, \<open>isLoading\<close> and \<open>currentSession\<close> are
  untouched: nothing reaches the callers. \<open>createNewSession\<close> puts the new session
  first in the list, so the list starts with the sessions created last.
\<close>

theorem quota_failure_truncates_and_retries_once:
  "(engine (sessions_json (sessions st)) = Some e \<and> err_name e = ''QuotaExceededError'' \<longrightarrow>
      saved_store (saveSessionsToStorage (render st) engine slot st)
        = st\<lparr>sessions := take 10 (sessions st)\<rparr>
    \<and> attempts (saveSessionsToStorage (render st) engine slot st)
        = [sessions_json (sessions st), sessions_json (take 10 (sessions st))]
    \<and> (engine (sessions_json (take 10 (sessions st))) = None \<longrightarrow>
          saved_slot (saveSessionsToStorage (render st) engine slot st)
            = Some (JsonText (sessions_json (take 10 (sessions st))))
        \<and> logged (saveSessionsToStorage (render st) engine slot st)
            = [''Error saving sessions to storage:''])
    \<and> (engine (sessions_json (take 10 (sessions st))) \<noteq> None \<longrightarrow>
          saved_slot (saveSessionsToStorage (render st) engine slot st) = slot
        \<and> logged (saveSessionsToStorage (render st) engine slot st)
            = [''Error saving sessions to storage:'',
               ''Failed to save even reduced sessions:'']))
   \<and> error (saved_store (saveSessionsToStorage cl engine slot st)) = error st
   \<and> isLoading (saved_store (saveSessionsToStorage cl engine slot st)) = isLoading st
   \<and> currentSession (saved_store (saveSessionsToStorage cl engine slot st)) = currentSession st
   \<and> sessions (snd (createNewSession seed t st)) = new_session seed t # sessions st"
proof -
  note rest = save_keeps_rest[of cl engine slot st]
  have quota: "saved_store (saveSessionsToStorage (render st) engine slot st)
        = st\<lparr>sessions := take 10 (sessions st)\<rparr>
    \<and> attempts (saveSessionsToStorage (render st) engine slot st)
        = [sessions_json (sessions st), sessions_json (take 10 (sessions st))]
    \<and> (engine (sessions_json (take 10 (sessions st))) = None \<longrightarrow>
          saved_slot (saveSessionsToStorage (render st) engine slot st)
            = Some (JsonText (sessions_json (take 10 (sessions st))))
        \<and> logged (saveSessionsToStorage (render st) engine slot st)
            = [''Error saving sessions to storage:''])
    \<and> (engine (sessions_json (take 10 (sessions st))) \<noteq> None \<longrightarrow>
          saved_slot (saveSessionsToStorage (render st) engine slot st) = slot
        \<and> logged (saveSessionsToStorage (render st) engine slot st)
            = [''Error saving sessions to storage:'',
               ''Failed to save even reduced sessions:''])"
    if "engine (sessions_json (sessions st)) = Some e" "err_name e = ''QuotaExceededError''"
    using that
    by (auto simp: saveSessionsToStorage_def Let_def setItem_def render_def
        split: option.splits)
  have first: "sessions (snd (createNewSession seed t st)) = new_session seed t # sessions st"
    by (simp add: createNewSession_def Let_def)
  from quota rest first show ?thesis by blast
qed

theorem quota_failure_truncates_and_retries_once_witness:
  "full_engine (sessions_json (sessions eleven_sessions)) = Some quota_error
   \<and> err_name quota_error = ''QuotaExceededError''
   \<and> length (sessions eleven_sessions) = 11
   \<and> map session_id (sessions (saved_store
         (saveSessionsToStorage (render eleven_sessions) full_engine None eleven_sessions)))
       = [''s11'', ''s10'', ''s9'', ''s8'', ''s7'', ''s6'', ''s5'', ''s4'', ''s3'', ''s2'']
   \<and> attempts (saveSessionsToStorage (render eleven_sessions) full_engine None
        eleven_sessions)
       = [sessions_json (sessions eleven_sessions),
          sessions_json (take 10 (sessions eleven_sessions))]
   \<and> saved_slot (saveSessionsToStorage (render eleven_sessions) full_engine None
        eleven_sessions) = None
   \<and> logged (saveSessionsToStorage (render eleven_sessions) full_engine None
        eleven_sessions)
       = [''Error saving sessions to storage:'', ''Failed to save even reduced sessions:'']"
proof -
  have a: "full_engine (sessions_json (sessions eleven_sessions)) = Some quota_error"
    by (simp add: full_engine_def)
  have b: "err_name quota_error = ''QuotaExceededError''"
    by (simp add: quota_error_def)
  have c: "full_engine (sessions_json (take 10 (sessions eleven_sessions))) \<noteq> None"
    by (simp add: full_engine_def)
  have n: "length (sessions eleven_sessions) = 11" by code_simp
  have ids: "map session_id (take 10 (sessions eleven_sessions))
       = [''s11'', ''s10'', ''s9'', ''s8'', ''s7'', ''s6'', ''s5'', ''s4'', ''s3'', ''s2'']"
    by code_simp
  from quota_failure_truncates_and_retries_once
         [where engine = full_engine and st = eleven_sessions and e = quota_error
            and slot = None] a b c
  have r: "saved_store (saveSessionsToStorage (render eleven_sessions) full_engine None
              eleven_sessions)
        = eleven_sessions\<lparr>sessions := take 10 (sessions eleven_sessions)\<rparr>"
    and at: "attempts (saveSessionsToStorage (render eleven_sessions) full_engine None
        eleven_sessions)
       = [sessions_json (sessions eleven_sessions),
          sessions_json (take 10 (sessions eleven_sessions))]"
    and sl: "saved_slot (saveSessionsToStorage (render eleven_sessions) full_engine None
        eleven_sessions) = None"
    and lg: "logged (saveSessionsToStorage (render eleven_sessions) full_engine None
        eleven_sessions)
       = [''Error saving sessions to storage:'', ''Failed to save even reduced sessions:'']"
    by blast+
  from a b n at sl lg show ?thesis by (simp add: r ids)
qed

section \<open>One request in flight\<close>

text \<open>
  Every call of \<open>sendMessage\<close> aborts the controller the ref holds before it creates
  its own (\<open>start_single_flight\<close>: \<open>single_flight\<close> is kept), and a call whose
  signal is aborted while \<open>fetch\<close> is still pending returns \<open>null\<close> and changes
  nothing but the loading flag.
\<close>

lemma superseded_while_waiting:
  "call_signal call \<in> aborted st \<Longrightarrow>
   sendMessage_resume call rseed etxt (settle st call Waiting network) st
     = (None, st\<lparr>isLoading := False\<rparr>)"
  by (simp add: settle_def sendMessage_resume_def try_block_def Let_def)

text \<open>
  Claim C4 fails when the abort reaches the first request after the headers of a non-2xx
  answer: the rejection of \<open>response.json()\<close> is swallowed by
  \<open>.catch(() => ({}))\<close>, so the superseded call does not see an \<open>AbortError\<close>; it
  throws the status line, returns an error message instead of \<open>null\<close> and appends that
  message to the session. For two calls in quick succession on the initial store, the
  first answered with status 429, the superseded call returns the rate-limit message and
  the session holds its user message followed by that assistant message. The claim also
  fails on a store whose active session is not in the set (here the one left when the
  session is deleted while its request is pending): of two calls in quick succession the
  first returns \<open>null\<close>, the second returns its assistant message, and no session of
  the set holds any message.
\<close>

theorem superseded_call_returns_error_message:
  "call_signal (fst first_call) \<in> aborted (snd second_call)
   \<and> settle (snd second_call) (fst first_call) HeadersIn
         (NotOk 429 ''Too Many Requests'' (Body (Some ''Rate limit reached for requests'')))
       = NotOk 429 ''Too Many Requests'' Unreadable
   \<and> map_option content
        (fst (sendMessage_resume (fst first_call) seed_a1 ''''
           (settle (snd second_call) (fst first_call) HeadersIn
              (NotOk 429 ''Too Many Requests'' (Body (Some ''Rate limit reached for requests''))))
           (snd second_call)))
       = Some (''Error: '' @ rate_limit_text)
   \<and> map (map role \<circ> messages)
        (sessions (snd (sendMessage_resume (fst first_call) seed_a1 ''''
           (settle (snd second_call) (fst first_call) HeadersIn
              (NotOk 429 ''Too Many Requests'' (Body (Some ''Rate limit reached for requests''))))
           (snd second_call))))
       = [[User, Assistant]]
   \<and> fst (sendMessage_resume (fst first_on_orphan) seed_a1 ''''
           (settle (snd second_on_orphan) (fst first_on_orphan) Waiting
              (completion ''one'' 42))
           (snd second_on_orphan)) = None
   \<and> map_option content
        (fst (sendMessage_resume (fst second_on_orphan) seed_a2 ''''
           (settle (snd second_on_orphan) (fst second_on_orphan) Waiting
              (completion ''two'' 58))
           (snd second_on_orphan))) = Some ''two''
   \<and> concat (map messages
        (sessions (snd (sendMessage_resume (fst second_on_orphan) seed_a2 ''''
           (settle (snd second_on_orphan) (fst second_on_orphan) Waiting
              (completion ''two'' 58))
           (snd second_on_orphan))))) = []"
  by code_simp

section \<open>Token totals\<close>

text \<open>
  \<open>getTotalTokensUsed\<close> adds up \<open>tokens || 0\<close> over all messages of the sessions
  with the given id, or of all sessions when no id is given.
\<close>

lemma total_tokens_is_sum:
  "getTotalTokensUsed cl sessionId =
     sum_list (map (\<lambda>s. sum_list (map tokens_or_zero (messages s)))
       (if truthy sessionId then filter (\<lambda>s. session_id s = the sessionId) (c_sessions cl)
        else c_sessions cl))"
  by (simp add: getTotalTokensUsed_def Let_def foldl_plus)

text \<open>
  On a session that was created beforehand with \<open>createNewSession\<close>, two exchanges
  answered with 42 and 58 tokens give the totals 42 and then 100.
\<close>

lemma tokens_add_up_in_created_session:
  "map (map msg_id \<circ> messages) (sessions created_second) = [[''m1'', ''m2'', ''m3'', ''m4'']]
   \<and> getTotalTokensUsed (render created_first) (Some ''s1'') = 42
   \<and> getTotalTokensUsed (render created_second) (Some ''s1'') = 100"
  by code_simp

text \<open>
  Claim C8 fails when the first call creates the session itself. \<open>createNewSession\<close>
  makes the empty new session the active one, and the call brings the active reference up
  to date only when the \<open>currentSession\<close> of its closure has the session's id, which
  it has not (it was \<open>null\<close>). After the first exchange the session set holds the
  session with both messages and 42 tokens, but the active reference is still the empty
  session. The second call, naming no session, works on that empty session and replaces
  the stored one: the first exchange is gone and the total for the session is 58, not
  100.
\<close>

theorem tokens_lost_after_implicit_session:
  "currentSession after_first = Some (new_session seed_s1 None)
   \<and> map (map msg_id \<circ> messages) (sessions after_first) = [[''m1'', ''m2'']]
   \<and> getTotalTokensUsed (render after_first) (Some ''s1'') = 42
   \<and> map (map msg_id \<circ> messages) (sessions after_second) = [[''m3'', ''m4'']]
   \<and> getTotalTokensUsed (render after_second) (Some ''s1'') = 58
   \<and> getTotalTokensUsed (render after_second) None = 58"
  by code_simp

end
